theory Spec2Isabelle
  imports Complex_Main "HOL-Library.AList"
begin

section \<open>AlphaGradient: asset datasets, the type registry and the asset base class\<close>

text \<open>
  A shallow embedding of \<^verbatim>\<open>AlphaGradient/data/datatools.py\<close> (the shipped, string-keyed
  \<^verbatim>\<open>AssetData\<close> class) and of \<^verbatim>\<open>AlphaGradient/finance/asset.py\<close> (\<^verbatim>\<open>TYPES\<close>,
  \<^verbatim>\<open>Hidden\<close>, \<^verbatim>\<open>AssetDuplicationError\<close>, \<^verbatim>\<open>Asset\<close>). Every \<^verbatim>\<open>raise\<close> of the source
  and every exception of the Python runtime that the modelled lines can produce is a value
  of the type \<open>error\<close>; a function that can raise returns \<open>error + 'a\<close>.
\<close>

subsection \<open>Exceptions\<close>

datatype error =
    MissingColumns "string list"
      \<comment> \<open>\<^verbatim>\<open>ValueError("AssetData missing required columns: ...")\<close>, datatools.py line 252;
          the argument is the list \<^verbatim>\<open>unsatisfied\<close> that the message prints\<close>
  | ExplicitColumnNames
      \<comment> \<open>\<^verbatim>\<open>ValueError("... input requires explicit column names ...")\<close>, line 99\<close>
  | InvalidDataset
      \<comment> \<open>\<^verbatim>\<open>ValueError("Unable to create valid asset dataset from ...")\<close>, line 114\<close>
  | OpenCloseUnknown
      \<comment> \<open>\<^verbatim>\<open>ValueError("Must specify at least one opening or closing value name ...")\<close>, line 136\<close>
  | OpenCloseNotRequired
      \<comment> \<open>the same message, raised by the defensive check of line 162\<close>
  | ShapeError
      \<comment> \<open>\<^verbatim>\<open>ValueError\<close> of the table constructor: a row whose width is not the number of columns\<close>
  | NotOneDimensional
      \<comment> \<open>a column label that selects several columns where one is needed\<close>
  | NotADatetime
      \<comment> \<open>a cell of the \<^verbatim>\<open>DATE\<close> column that cannot be converted to a datetime\<close>
  | UnsortedIndex
      \<comment> \<open>\<^verbatim>\<open>ValueError("asof requires a sorted index")\<close>\<close>
  | EmptyIndex
      \<comment> \<open>\<^verbatim>\<open>IndexError\<close>: the first index entry of a table without rows\<close>
  | KeyError string
  | FileNotFoundError
  | IsoFormatError
      \<comment> \<open>\<^verbatim>\<open>ValueError\<close> of \<^verbatim>\<open>datetime.fromisoformat\<close>\<close>
  | TypeError
  | AttributeError
  | RecursionError
  | AssetDuplicationError string string
      \<comment> \<open>asset name and type tag, as the message of asset.py line 58 prints them\<close>

subsection \<open>Column names\<close>

text \<open>
  \<^verbatim>\<open>str.upper\<close> and \<^verbatim>\<open>str.replace(' ', '_')\<close> on ASCII text: the letters \<^verbatim>\<open>a\<close> to \<^verbatim>\<open>z\<close>
  (codes 97 to 122) move down by 32, which clears bit 5 of the code; every other character
  stays.
\<close>

definition upper_char :: "char \<Rightarrow> char" where
  "upper_char c =
     (if 97 \<le> (of_char c :: nat) \<and> (of_char c :: nat) \<le> 122
      then (case c of Char b0 b1 b2 b3 b4 b5 b6 b7 \<Rightarrow> Char b0 b1 b2 b3 b4 False b6 b7)
      else c)"

definition upper :: "string \<Rightarrow> string" where
  "upper s = map upper_char s"

definition replace_space :: "string \<Rightarrow> string" where
  "replace_space s = map (\<lambda>c. if c = CHR '' '' then CHR ''_'' else c) s"

text \<open>\<^verbatim>\<open>AssetData.column_format\<close> (datatools.py line 203).\<close>

definition column_format :: "string \<Rightarrow> string" where
  "column_format column = upper (replace_space column)"

text \<open>Truthiness of a value that is \<^verbatim>\<open>None\<close> or a string: only a non-empty string is true.\<close>

definition truthy :: "string option \<Rightarrow> bool" where
  "truthy s = (case s of None \<Rightarrow> False | Some x \<Rightarrow> x \<noteq> [])"

subsection \<open>Tables\<close>

text \<open>
  The labelled table of the boundary library, as far as the modelled lines use it: the column
  labels in order (labels may repeat), the rows in order (each row one cell per column), and
  the row index, which is either the default positional index (\<open>None\<close>) or a datetime index
  (\<open>Some ds\<close>, one datetime per row).
\<close>

type_synonym datetime = int

datatype cell = DateCell datetime | NumCell real | StrCell string | NaN

record table =
  columns :: "string list"
  rows :: "cell list list"
  dt_index :: "datetime list option"

text \<open>\<^verbatim>\<open>DataFrame.empty\<close>: some axis has length zero.\<close>

definition empty_table :: "table \<Rightarrow> bool" where
  "empty_table t = (columns t = [] \<or> rows t = [])"

text \<open>
  \<^verbatim>\<open>data.drop(column, axis=1, inplace=True)\<close>: removes every column carrying the label;
  a label that no column carries is a \<^verbatim>\<open>KeyError\<close>.
\<close>

definition remove_label :: "string \<Rightarrow> string list \<Rightarrow> 'a list \<Rightarrow> 'a list" where
  "remove_label column labels xs = map snd (filter (\<lambda>(l, x). l \<noteq> column) (zip labels xs))"

definition drop_column :: "table \<Rightarrow> string \<Rightarrow> error + table" where
  "drop_column t column =
     (if column \<notin> set (columns t) then Inl (KeyError column)
      else Inr (t\<lparr>columns := filter (\<lambda>l. l \<noteq> column) (columns t),
                 rows := map (remove_label column (columns t)) (rows t)\<rparr>))"

subsection \<open>Column specifications and \<^verbatim>\<open>validate_columns\<close>\<close>

text \<open>
  A required or optional specification is \<^verbatim>\<open>None\<close>, a list of names, or a dict from names
  to dtype names (written as its items in insertion order).
\<close>

datatype colspec = NoSpec | ListSpec "string list" | DictSpec "(string \<times> string) list"

text \<open>
  A Python dict built by inserting the pairs in order: a key seen again keeps its position
  and takes the new value.
\<close>

definition dict_of :: "(string \<times> string) list \<Rightarrow> (string \<times> string) list" where
  "dict_of ps = foldl (\<lambda>d (k, v). AList.update k v d) [] ps"

text \<open>
  \<^verbatim>\<open>to_dict\<close> (datatools.py lines 234 to 242), after \<^verbatim>\<open>x if x else {}\<close> of lines 230, 231.
\<close>

definition to_dict :: "colspec \<Rightarrow> (string \<times> string) list" where
  "to_dict spec =
     (case spec of
        NoSpec \<Rightarrow> []
      | ListSpec cs \<Rightarrow> dict_of (map (\<lambda>column. (column, ''float'')) (map column_format cs))
      | DictSpec kvs \<Rightarrow> dict_of (map (\<lambda>(column, dtype). (column_format column, dtype)) kvs))"

text \<open>
  The loop of lines 263 to 265: it runs over the column labels the table had before the loop
  and drops, from the table as it is by then, each label that is neither required nor optional.
\<close>

fun drop_unlisted :: "string list \<Rightarrow> string list \<Rightarrow> table \<Rightarrow> error + table" where
  "drop_unlisted [] keep t = Inr t"
| "drop_unlisted (column # rest) keep t =
     (if column \<notin> set keep
      then (case drop_column t column of
              Inl e \<Rightarrow> Inl e
            | Inr t' \<Rightarrow> drop_unlisted rest keep t')
      else drop_unlisted rest keep t)"

text \<open>\<^verbatim>\<open>AssetData.validate_columns\<close> (datatools.py lines 205 to 267).\<close>

definition validate_columns :: "table \<Rightarrow> colspec \<Rightarrow> colspec \<Rightarrow> error + table" where
  "validate_columns t required optional =
     (let required = to_dict required;
          optional = to_dict optional;
          satisfied = map (\<lambda>(column, dtype). (column, column \<in> set (columns t))) required;
          unsatisfied = map fst (filter (\<lambda>(column, present). \<not> present) satisfied)
      in if unsatisfied \<noteq> [] then Inl (MissingColumns unsatisfied)
         else drop_unlisted (columns t) (map fst required @ map fst optional) t)"

text \<open>The names a specification lists, as written by the caller.\<close>

definition spec_names :: "colspec \<Rightarrow> string list" where
  "spec_names spec =
     (case spec of NoSpec \<Rightarrow> [] | ListSpec cs \<Rightarrow> cs | DictSpec kvs \<Rightarrow> map fst kvs)"

subsection \<open>Raw inputs, settings and the environment of \<^verbatim>\<open>AssetData\<close>\<close>

text \<open>The shapes of the \<^verbatim>\<open>data\<close> argument that the constructor tells apart.\<close>

datatype raw =
    NoneData                    \<comment> \<open>\<^verbatim>\<open>None\<close>\<close>
  | Numeric real                \<comment> \<open>a number\<close>
  | Sequence "cell list list"   \<comment> \<open>a list or an array, given as its rows\<close>
  | Frame table                 \<comment> \<open>a table\<close>
  | Source string               \<comment> \<open>anything else: a path, a file object or text\<close>

text \<open>
  Modelled from the spec: \<^verbatim>\<open>is_numeric\<close> of the \<^verbatim>\<open>constants\<close> module, which is not among
  the sources; the spec speaks of "numeric scalar" inputs and of \<^verbatim>\<open>data\<close> "itself numeric".
\<close>

definition is_numeric :: "raw \<Rightarrow> bool" where
  "is_numeric d = (case d of Numeric v \<Rightarrow> True | _ \<Rightarrow> False)"

definition number :: "raw \<Rightarrow> real" where
  "number d = (case d of Numeric v \<Rightarrow> v | _ \<Rightarrow> 0)"

text \<open>
  What \<^verbatim>\<open>asset_type.get_settings(unpack=True)\<close> hands to the constructor (line 79); the
  method itself is not among the sources, so its result is a parameter.
\<close>

record settings =
  s_required :: "string list option"
  s_optional :: colspec
  s_close_value :: "string option"
  s_open_value :: "string option"

text \<open>
  The outcome of \<^verbatim>\<open>pd.read_table(data, sep=',')\<close> on a source: a parsed table, a
  \<^verbatim>\<open>TypeError\<close> or \<^verbatim>\<open>ValueError\<close> (swallowed by lines 105, 106), or any other exception
  (which leaves the constructor).
\<close>

datatype read_outcome = Parsed table | Rejected | Failed error

record env =
  today :: datetime
  read_table :: "string \<Rightarrow> read_outcome"
  to_datetime :: "cell \<Rightarrow> datetime option"
  fromisoformat :: "string \<Rightarrow> datetime option"

text \<open>The dataset object: a field is \<open>None\<close> while the attribute has never been assigned.\<close>

record AssetData =
  data :: "table option"
  open_value :: "string option"
  close_value :: "string option"
  single_valued :: "bool option"

definition name_of :: "string option \<Rightarrow> string" where
  "name_of s = (case s of None \<Rightarrow> [] | Some x \<Rightarrow> x)"

subsection \<open>\<^verbatim>\<open>AssetData.__init__\<close>, step by step\<close>

text \<open>Lines 90 to 94: the static one-row frame of a numeric input.\<close>

definition numeric_frame ::
  "datetime \<Rightarrow> real \<Rightarrow> string option \<Rightarrow> string list \<Rightarrow> table \<times> string option \<times> string list" where
  "numeric_frame now v close_v required =
     (let frame = [DateCell now # replicate (length required + 1) (NumCell v)];
          close_v = (if truthy close_v then close_v else Some ''CLOSE'');
          required = ''DATE'' # name_of close_v # required
      in (\<lparr>columns = required, rows = frame, dt_index = None\<rparr>, close_v, required))"

text \<open>
  Lines 97 to 100: \<^verbatim>\<open>pd.DataFrame(data, columns=columns)\<close> on rows; every row must have one
  cell per column name.
\<close>

definition frame_of_rows :: "cell list list \<Rightarrow> string list option \<Rightarrow> error + table" where
  "frame_of_rows rs cols =
     (case cols of
        None \<Rightarrow> Inl ExplicitColumnNames
      | Some cs \<Rightarrow>
          if cs = [] then Inl ExplicitColumnNames
          else if list_all (\<lambda>r. length r = length cs) rs
          then Inr \<lparr>columns = cs, rows = rs, dt_index = None\<rparr>
          else Inl ShapeError)"

text \<open>
  Lines 110 to 112: a table with a datetime index gets its index as the column \<^verbatim>\<open>DATE\<close>
  (assigned to every column so labelled, or appended as a new last column).
\<close>

definition set_date_column :: "table \<Rightarrow> table" where
  "set_date_column t =
     (case dt_index t of
        None \<Rightarrow> t
      | Some ds \<Rightarrow>
          if ''DATE'' \<in> set (columns t)
          then t\<lparr>rows := map2 (\<lambda>d r. map (\<lambda>(l, x). if l = ''DATE'' then DateCell d else x)
                                         (zip (columns t) r)) ds (rows t)\<rparr>
          else t\<lparr>columns := columns t @ [''DATE''],
                 rows := map2 (\<lambda>d r. r @ [DateCell d]) ds (rows t)\<rparr>)"

text \<open>
  Lines 89 to 114: from the raw input to a table, with the close name and the required list
  as the numeric branch rebinds them. The case \<open>Numeric\<close> is the branch
  \<^verbatim>\<open>is_numeric(data)\<close>; \<^verbatim>\<open>pd.read_table\<close> rejects a table with \<^verbatim>\<open>ValueError\<close>,
  so a table passes line 104 unchanged.
\<close>

definition load_table ::
  "env \<Rightarrow> raw \<Rightarrow> string list option \<Rightarrow> string option \<Rightarrow> string list
     \<Rightarrow> error + (table \<times> string option \<times> string list)" where
  "load_table e d cols close_v required =
     (case d of
        NoneData \<Rightarrow> Inl InvalidDataset
      | Numeric v \<Rightarrow>
          (case numeric_frame (today e) v close_v required of
             (t, close_v', required') \<Rightarrow> Inr (set_date_column t, close_v', required'))
      | Sequence rs \<Rightarrow>
          (case frame_of_rows rs cols of
             Inl err \<Rightarrow> Inl err
           | Inr t \<Rightarrow> Inr (set_date_column t, close_v, required))
      | Frame t \<Rightarrow> Inr (set_date_column t, close_v, required)
      | Source s \<Rightarrow>
          (case read_table e s of
             Parsed t \<Rightarrow> Inr (set_date_column t, close_v, required)
           | Rejected \<Rightarrow> Inl InvalidDataset
           | Failed err \<Rightarrow> Inl err))"

text \<open>Lines 120, 121: \<^verbatim>\<open>OPEN\<close> and \<^verbatim>\<open>CLOSE\<close> by default.\<close>

definition default_name :: "string \<Rightarrow> string list \<Rightarrow> string option \<Rightarrow> string option" where
  "default_name label cols v = (if label \<in> set cols \<and> \<not> truthy v then Some label else v)"

text \<open>
  Lines 124 to 142: the resolution of the open and close names; the result is
  \<open>(open_value, close_value, single_valued)\<close>.
\<close>

definition resolve_open_close ::
  "string option \<Rightarrow> string option \<Rightarrow> error + (string \<times> string \<times> bool)" where
  "resolve_open_close open_v close_v =
     (if truthy close_v \<and> \<not> truthy open_v
      then (let c = column_format (name_of close_v) in Inr (c, c, True))
      else if truthy open_v \<and> \<not> truthy close_v
      then (let c = column_format (name_of open_v) in Inr (c, c, True))
      else if \<not> list_all truthy [close_v, open_v]
      then Inl OpenCloseUnknown
      else Inr (column_format (name_of open_v), column_format (name_of close_v), False))"

text \<open>
  Lines 149 to 158: the required columns. \<^verbatim>\<open>list(set(required))\<close> keeps one copy of each
  name in an order Python does not fix; \<open>remdups\<close> is one such order.
\<close>

definition assemble_required :: "string \<Rightarrow> string \<Rightarrow> string list \<Rightarrow> string list" where
  "assemble_required open_v close_v required =
     (let required = (if close_v \<noteq> [] then close_v # required else required);
          required = (if open_v \<noteq> [] then open_v # required else required);
          required = ''DATE'' # required
      in remdups required)"

text \<open>Line 161: the defensive check; \<open>True\<close> when it lets the construction go on.\<close>

definition reverify :: "string \<Rightarrow> string \<Rightarrow> string list \<Rightarrow> bool" where
  "reverify open_v close_v required = list_all (\<lambda>v. v \<in> set required) [open_v, close_v]"

text \<open>
  Lines 168, 169: \<^verbatim>\<open>data["DATE"]\<close> must be one column whose cells are datetimes or convert
  to datetimes; it becomes the index and is dropped as a column.
\<close>

definition column_cells :: "table \<Rightarrow> string \<Rightarrow> cell list list" where
  "column_cells t label =
     map (\<lambda>r. map snd (filter (\<lambda>(l, x). l = label) (zip (columns t) r))) (rows t)"

definition cell_datetime :: "env \<Rightarrow> cell \<Rightarrow> datetime option" where
  "cell_datetime e c = (case c of DateCell d \<Rightarrow> Some d | _ \<Rightarrow> to_datetime e c)"

definition set_datetime_index :: "env \<Rightarrow> table \<Rightarrow> error + table" where
  "set_datetime_index e t =
     (if ''DATE'' \<notin> set (columns t) then Inl (KeyError ''DATE'')
      else if length (filter (\<lambda>l. l = ''DATE'') (columns t)) \<noteq> 1 then Inl NotOneDimensional
      else (case those (map (cell_datetime e) (concat (column_cells t ''DATE''))) of
              None \<Rightarrow> Inl NotADatetime
            | Some ds \<Rightarrow> drop_column (t\<lparr>dt_index := Some ds\<rparr>) ''DATE''))"

text \<open>Lines 116 to 171, on the loaded table.\<close>

definition format_and_validate ::
  "env \<Rightarrow> settings \<Rightarrow> table \<Rightarrow> string option \<Rightarrow> string list \<Rightarrow> error + AssetData" where
  "format_and_validate e s t0 close_v0 required =
     (let t = t0\<lparr>columns := map column_format (columns t0)\<rparr>;
          open_v = default_name ''OPEN'' (columns t) (s_open_value s);
          close_v = default_name ''CLOSE'' (columns t) close_v0
      in case resolve_open_close open_v close_v of
           Inl err \<Rightarrow> Inl err
         | Inr (open_v, close_v, single) \<Rightarrow>
             (let required = assemble_required open_v close_v required
              in if \<not> reverify open_v close_v required then Inl OpenCloseNotRequired
                 else (case validate_columns t (ListSpec required) (s_optional s) of
                         Inl err \<Rightarrow> Inl err
                       | Inr t' \<Rightarrow>
                           (case set_datetime_index e t' of
                              Inl err \<Rightarrow> Inl err
                            | Inr t'' \<Rightarrow>
                                Inr \<lparr>data = Some t'', open_value = Some open_v,
                                     close_value = Some close_v,
                                     single_valued = Some single\<rparr>))))"

text \<open>
  \<^verbatim>\<open>AssetData.__init__\<close> (lines 77 to 171). On \<^verbatim>\<open>None\<close> it returns at line 87, before any
  attribute of the object has been assigned.
\<close>

definition AssetData_init ::
  "env \<Rightarrow> settings \<Rightarrow> raw \<Rightarrow> string list option \<Rightarrow> error + AssetData" where
  "AssetData_init e s d cols =
     (let required = map column_format (case s_required s of None \<Rightarrow> [] | Some r \<Rightarrow> r)
      in if d = NoneData
         then Inr \<lparr>data = None, open_value = None, close_value = None, single_valued = None\<rparr>
         else (case load_table e d cols (s_close_value s) required of
                 Inl err \<Rightarrow> Inl err
               | Inr (t, close_v, required') \<Rightarrow> format_and_validate e s t close_v required'))"

subsection \<open>Attribute access and truthiness of a dataset\<close>

text \<open>
  Evaluating \<^verbatim>\<open>self.data\<close> on a dataset. When the attribute was never assigned, Python calls
  \<^verbatim>\<open>__getattr__('data')\<close> (lines 173 to 180), whose first statement evaluates \<^verbatim>\<open>self.data\<close>
  again, one frame deeper; with no frame left the interpreter raises \<^verbatim>\<open>RecursionError\<close>,
  which the handlers for \<^verbatim>\<open>AttributeError\<close> and \<^verbatim>\<open>KeyError\<close> do not catch. The first
  argument is the number of frames left.
\<close>

fun self_data :: "nat \<Rightarrow> AssetData \<Rightarrow> error + table" where
  "self_data 0 ds = (case data ds of Some t \<Rightarrow> Inr t | None \<Rightarrow> Inl RecursionError)"
| "self_data (Suc n) ds = (case data ds of Some t \<Rightarrow> Inr t | None \<Rightarrow> self_data n ds)"

text \<open>\<^verbatim>\<open>AssetData.__bool__\<close> (lines 188, 189).\<close>

definition AssetData_bool :: "nat \<Rightarrow> AssetData \<Rightarrow> error + bool" where
  "AssetData_bool limit ds =
     (case self_data limit ds of Inl err \<Rightarrow> Inl err | Inr t \<Rightarrow> Inr (\<not> empty_table t))"

subsection \<open>The type registry \<^verbatim>\<open>TYPES\<close>\<close>

text \<open>
  An asset object is known by its identity. An entry of an instance map is an asset or, under
  \<^verbatim>\<open>allow_duplicates\<close>, a list of assets. An instance map is a
  \<^verbatim>\<open>weakref.WeakValueDictionary\<close>; the disappearance of entries whose asset has been
  collected is not modelled.
\<close>

type_synonym ref = nat

datatype entry = Single ref | Collection "ref list"

type_synonym instances = "string \<rightharpoonup> entry"

text \<open>
  The members of the enumeration in declaration order, each with its name and its instance
  map (\<^verbatim>\<open>_generate_next_value_\<close>, asset.py lines 14 to 28); \<^verbatim>\<open>UNDEFINED\<close> is the one member
  the class body declares.
\<close>

type_synonym types = "(string \<times> instances) list"

definition TYPES_initial :: types where
  "TYPES_initial = [(''UNDEFINED'', Map.empty)]"

text \<open>\<^verbatim>\<open>extend_enum(TYPES, TYPE)\<close> (\<^verbatim>\<open>TYPE\<close> is written \<open>TYPE_NAME\<close> here): a new last member with a fresh, empty instance map.\<close>

definition extend_enum :: "types \<Rightarrow> string \<Rightarrow> types" where
  "extend_enum TYPES TYPE_NAME = TYPES @ [(TYPE_NAME, Map.empty)]"

text \<open>
  A class statement, as \<^verbatim>\<open>__init_subclass__\<close> sees it: the name, the immediate bases, and
  the attribute \<^verbatim>\<open>type\<close> that the class inherits from its bases, if any does define one.
\<close>

datatype base = ABC | Hidden | OtherClass string

record class_decl =
  cls_name :: string
  cls_bases :: "base list"
  inherited_type :: "string option"

text \<open>
  \<^verbatim>\<open>Asset.__init_subclass__\<close> (asset.py lines 64 to 71): the registry after the declaration
  and the name of the member assigned to \<^verbatim>\<open>cls.type\<close>. A member is a non-empty tuple and so
  is true; \<^verbatim>\<open>getattr(cls, 'type', None)\<close> is false only when no type was assigned or inherited.
\<close>

definition init_subclass :: "types \<Rightarrow> class_decl \<Rightarrow> types \<times> string" where
  "init_subclass TYPES cls =
     (let TYPE_NAME = upper (cls_name cls);
          (TYPES', assigned) =
             (if list_all (\<lambda>b. b \<notin> set (cls_bases cls)) [ABC, Hidden]
              then ((if TYPE_NAME \<notin> set (map fst TYPES) then extend_enum TYPES TYPE_NAME else TYPES),
                    Some TYPE_NAME)
              else (TYPES, inherited_type cls))
      in (TYPES', (case assigned of None \<Rightarrow> ''UNDEFINED'' | Some tag \<Rightarrow> tag)))"

subsection \<open>\<^verbatim>\<open>Asset.__init__\<close>: attributes and the uniqueness check\<close>

text \<open>
  Storing into a \<^verbatim>\<open>WeakValueDictionary\<close> takes a weak reference to the value; Python
  refuses a weak reference to a list with \<^verbatim>\<open>TypeError\<close>.
\<close>

definition weak_setitem :: "instances \<Rightarrow> string \<Rightarrow> entry \<Rightarrow> error + instances" where
  "weak_setitem m k v =
     (case v of Single r \<Rightarrow> Inr (m(k \<mapsto> v)) | Collection rs \<Rightarrow> Inl TypeError)"

text \<open>
  \<^verbatim>\<open>x += self\<close> for an entry \<^verbatim>\<open>x\<close> and an asset \<^verbatim>\<open>self\<close>: an asset defines neither
  \<^verbatim>\<open>__iadd__\<close> nor \<^verbatim>\<open>__add__\<close>, and a list extends itself only by an iterable, which an
  asset is not. Both are \<^verbatim>\<open>TypeError\<close>.
\<close>

definition iadd :: "entry \<Rightarrow> ref \<Rightarrow> error + entry" where
  "iadd x self = (case x of Single r \<Rightarrow> Inl TypeError | Collection rs \<Rightarrow> Inl TypeError)"

text \<open>
  Lines 82 to 90, on the instance map of the asset's type: the map after the check, or the
  exception.
\<close>

definition check_instance ::
  "instances \<Rightarrow> ref \<Rightarrow> string \<Rightarrow> string \<Rightarrow> bool \<Rightarrow> error + instances" where
  "check_instance m self nm tag allow_duplicates =
     (if m nm = None then
        (if allow_duplicates then weak_setitem m nm (Collection [self])
         else weak_setitem m nm (Single self))
      else if allow_duplicates then
        (case m nm of
           None \<Rightarrow> Inl (KeyError nm)
         | Some x \<Rightarrow> (case iadd x self of Inl err \<Rightarrow> Inl err | Inr x' \<Rightarrow> weak_setitem m nm x'))
      else Inl (AssetDuplicationError nm tag))"

text \<open>A price is a cell of a row, or the several cells a repeated label selects.\<close>

datatype pvalue = Scalar cell | Several "cell list"

text \<open>
  The names the shipped class \<^verbatim>\<open>AssetData\<close> (datatools.py lines 57 to 267) defines. The
  enumeration \<^verbatim>\<open>COLUMNS\<close> belongs to the retired dataset class, which survives only inside a
  string literal (lines 284 to 434) and defines nothing.
\<close>

definition AssetData_class_attributes :: "string list" where
  "AssetData_class_attributes =
     [''__init__'', ''__getattr__'', ''__getitem__'', ''__str__'', ''__bool__'',
      ''column_format'', ''validate_columns'']"

text \<open>
  \<^verbatim>\<open>datatools.AssetData.COLUMNS.CLOSE\<close> (asset.py line 79): an attribute the class does not
  define is an \<^verbatim>\<open>AttributeError\<close>; \<^verbatim>\<open>__getattr__\<close> of line 173 serves instances only.
\<close>

definition AssetData_COLUMNS_CLOSE :: "error + string" where
  "AssetData_COLUMNS_CLOSE =
     (if ''COLUMNS'' \<in> set AssetData_class_attributes then Inr ''CLOSE'' else Inl AttributeError)"

record asset_attrs =
  name :: string
  price :: pvalue
  valuate_on :: string

text \<open>
  Lines 77 to 79, given the outcome of evaluating \<^verbatim>\<open>datatools.AssetData.COLUMNS.CLOSE\<close>:
  the name and the provisional price are assigned first, then the valuation column.
\<close>

definition init_attributes_with :: "error + string \<Rightarrow> string \<Rightarrow> raw \<Rightarrow> error + asset_attrs" where
  "init_attributes_with lookup nm d =
     (let name' = nm;
          price' = Scalar (NumCell (if is_numeric d then number d else 0))
      in case lookup of
           Inl err \<Rightarrow> Inl err
         | Inr marker \<Rightarrow> Inr \<lparr>name = name', price = price', valuate_on = marker\<rparr>)"

text \<open>Lines 77 to 90: the attributes, then the uniqueness check.\<close>

definition Asset_init_begin_with ::
  "error + string \<Rightarrow> instances \<Rightarrow> ref \<Rightarrow> string \<Rightarrow> string \<Rightarrow> raw \<Rightarrow> bool
     \<Rightarrow> error + (asset_attrs \<times> instances)" where
  "Asset_init_begin_with lookup m self tag nm d allow_duplicates =
     (case init_attributes_with lookup nm d of
        Inl err \<Rightarrow> Inl err
      | Inr a \<Rightarrow>
          (case check_instance m self nm tag allow_duplicates of
             Inl err \<Rightarrow> Inl err
           | Inr m' \<Rightarrow> Inr (a, m')))"

text \<open>The same lines in the program as shipped.\<close>

definition init_attributes :: "string \<Rightarrow> raw \<Rightarrow> error + asset_attrs" where
  "init_attributes nm d = init_attributes_with AssetData_COLUMNS_CLOSE nm d"

definition Asset_init_begin ::
  "instances \<Rightarrow> ref \<Rightarrow> string \<Rightarrow> string \<Rightarrow> raw \<Rightarrow> bool \<Rightarrow> error + (asset_attrs \<times> instances)" where
  "Asset_init_begin m self tag nm d allow_duplicates =
     Asset_init_begin_with AssetData_COLUMNS_CLOSE m self tag nm d allow_duplicates"

subsection \<open>Valuation\<close>

text \<open>
  An asset whose construction has set every attribute. \<^verbatim>\<open>date\<close> is a datetime: line 93
  stores nothing else.
\<close>

record Asset = asset_attrs +
  asset_type :: string
  date :: datetime
  asset_data :: AssetData

datatype date_arg = NoDate | DateStr string | DateTime datetime | OtherDate

text \<open>\<^verbatim>\<open>Asset._normalize_date_input\<close> (asset.py lines 145 to 156).\<close>

definition normalize_date_input :: "env \<Rightarrow> Asset \<Rightarrow> date_arg \<Rightarrow> error + datetime" where
  "normalize_date_input e self d =
     (case d of
        NoDate \<Rightarrow> Inr (date self)
      | DateStr s \<Rightarrow> (case fromisoformat e s of None \<Rightarrow> Inl IsoFormatError | Some t \<Rightarrow> Inr t)
      | DateTime t \<Rightarrow> Inr t
      | OtherDate \<Rightarrow> Inl TypeError)"

text \<open>
  \<^verbatim>\<open>DataFrame.asof\<close> of the boundary library, for one date: the index must be ascending;
  the result is the last row at or before the date that has no missing value, and a row of
  \<^verbatim>\<open>NaN\<close> when there is no such row. The result is the row with its labels.
\<close>

definition asof :: "table \<Rightarrow> datetime \<Rightarrow> error + (string \<times> cell) list" where
  "asof t d =
     (case dt_index t of
        None \<Rightarrow> Inl TypeError
      | Some ds \<Rightarrow>
          if \<not> sorted ds then Inl UnsortedIndex
          else if ds = [] then Inl EmptyIndex
          else (let good = filter (\<lambda>(dt, r). dt \<le> d \<and> NaN \<notin> set r) (zip ds (rows t))
                in Inr (zip (columns t)
                         (if good = [] then replicate (length (columns t)) NaN
                          else snd (last good)))))"

text \<open>\<^verbatim>\<open>row[label]\<close> on a labelled row.\<close>

definition row_item :: "(string \<times> cell) list \<Rightarrow> string \<Rightarrow> error + pvalue" where
  "row_item r label =
     (case map snd (filter (\<lambda>(l, x). l = label) r) of
        [] \<Rightarrow> Inl (KeyError label)
      | [x] \<Rightarrow> Inr (Scalar x)
      | xs \<Rightarrow> Inr (Several xs))"

text \<open>
  \<^verbatim>\<open>Asset._data_valuate\<close> (asset.py lines 135 to 139): the price and the asset with the
  price stored. \<^verbatim>\<open>self.data.asof\<close> reaches the table through \<^verbatim>\<open>AssetData.__getattr__\<close>.
\<close>

definition data_valuate ::
  "env \<Rightarrow> nat \<Rightarrow> Asset \<Rightarrow> date_arg \<Rightarrow> error + (pvalue \<times> Asset)" where
  "data_valuate e limit self d =
     (case normalize_date_input e self d of
        Inl err \<Rightarrow> Inl err
      | Inr d' \<Rightarrow>
          (case self_data limit (asset_data self) of
             Inl err \<Rightarrow> Inl err
           | Inr t \<Rightarrow>
               (case asof t d' of
                  Inl err \<Rightarrow> Inl err
                | Inr r \<Rightarrow>
                    (case row_item r (valuate_on self) of
                       Inl err \<Rightarrow> Inl err
                     | Inr p \<Rightarrow> Inr (p, self\<lparr>price := p\<rparr>)))))"

text \<open>
  \<^verbatim>\<open>Asset.valuate\<close> (asset.py lines 128 to 133). \<^verbatim>\<open>_valuate\<close> is abstract: the formula of
  the concrete class is a parameter, a function of the asset alone.
\<close>

definition valuate ::
  "env \<Rightarrow> nat \<Rightarrow> (Asset \<Rightarrow> error + (pvalue \<times> Asset)) \<Rightarrow> Asset \<Rightarrow> date_arg
     \<Rightarrow> error + (pvalue \<times> Asset)" where
  "valuate e limit formula self d =
     (case normalize_date_input e self d of
        Inl err \<Rightarrow> Inl err
      | Inr d' \<Rightarrow>
          (case AssetData_bool limit (asset_data self) of
             Inl err \<Rightarrow> Inl err
           | Inr nonempty \<Rightarrow>
               if nonempty then data_valuate e limit self (DateTime d') else formula self))"

subsection \<open>Example values\<close>

text \<open>
  An environment, a two-row dataset indexed by the dates 10 and 20, an asset that owns it and
  is valuated on \<^verbatim>\<open>CLOSE\<close>, and a formula that returns the stored price.
\<close>

definition env0 :: env where
  "env0 = \<lparr>today = 100, read_table = (\<lambda>s. Rejected), to_datetime = (\<lambda>c. None),
           fromisoformat = (\<lambda>s. None)\<rparr>"

definition table0 :: table where
  "table0 = \<lparr>columns = [''CLOSE''], rows = [[NumCell 7], [NumCell 8]], dt_index = Some [10, 20]\<rparr>"

definition asset0 :: Asset where
  "asset0 = \<lparr>name = ''X'', price = Scalar (NumCell 0), valuate_on = ''CLOSE'',
             asset_type = ''STOCK'', date = 20,
             asset_data = \<lparr>data = Some table0, open_value = Some ''CLOSE'',
                            close_value = Some ''CLOSE'', single_valued = Some True\<rparr>\<rparr>"

definition formula0 :: "Asset \<Rightarrow> error + (pvalue \<times> Asset)" where
  "formula0 a = Inr (price a, a)"

subsection \<open>Vocabulary of the properties\<close>

text \<open>
  The required columns a table lacks: the names of the specification, in the normal form
  \<^verbatim>\<open>validate_columns\<close> gives them, that label no column of the table.
\<close>

definition absent_required :: "table \<Rightarrow> colspec \<Rightarrow> string list" where
  "absent_required t required =
     filter (\<lambda>column. column \<notin> set (columns t)) (map column_format (spec_names required))"

section \<open>Properties\<close>

lemma dict_of_keys: "fst ` set (dict_of ps) = fst ` set ps"
proof -
  have "fst ` set (foldl (\<lambda>d (k, v). AList.update k v d) d0 ps) = fst ` set d0 \<union> fst ` set ps"
    for d0
    by (induction ps arbitrary: d0) (auto simp: dom_update case_prod_beta)
  then show ?thesis by (simp add: dict_of_def)
qed

lemma to_dict_keys: "fst ` set (to_dict spec) = column_format ` set (spec_names spec)"
  by (cases spec) (simp_all add: to_dict_def spec_names_def dict_of_keys image_image case_prod_beta)

lemma drop_unlisted_not_missing: "drop_unlisted cs keep t \<noteq> Inl (MissingColumns us)"
  by (induction cs keep t rule: drop_unlisted.induct) (auto simp: drop_column_def)

lemmas format_defs =
  column_format_def upper_def replace_space_def upper_char_def truthy_def name_of_def Let_def

subsection \<open>Required columns (\<^verbatim>\<open>validate_columns\<close>)\<close>

lemma unsatisfied_set:
  "set (map fst (filter (\<lambda>(column, present). \<not> present)
          (map (\<lambda>(column, dtype). (column, column \<in> set cs)) d)))
     = {c \<in> fst ` set d. c \<notin> set cs}"
  by (induction d) (auto simp: case_prod_beta)

lemma drop_unlisted_errors:
  "drop_unlisted cs keep t = Inl err \<Longrightarrow> \<exists>k. err = KeyError k"
  by (induction cs keep t rule: drop_unlisted.induct)
     (auto simp: drop_column_def split: if_splits sum.splits)

lemma validate_columns_errors:
  "validate_columns t required optional = Inl err \<Longrightarrow>
     (\<exists>us. err = MissingColumns us) \<or> (\<exists>k. err = KeyError k)"
  by (auto simp: validate_columns_def Let_def split: if_splits dest: drop_unlisted_errors)

text \<open>
  Claim C3. For every table and every required-column specification: when at least one
  required column (its name in normal form) is absent from the table, \<^verbatim>\<open>validate_columns\<close>
  fails with the missing-columns error, and the error names exactly the absent required
  columns, whatever the optional specification and the other columns of the table are; when
  no required column is absent, \<^verbatim>\<open>validate_columns\<close> does not raise that error.
\<close>

theorem validate_columns_missing:
  "(absent_required t required \<noteq> [] \<longrightarrow>
      (\<exists>us. validate_columns t required optional = Inl (MissingColumns us)
            \<and> set us = set (absent_required t required)))
   \<and> (absent_required t required = [] \<longrightarrow>
      (\<forall>us. validate_columns t required optional \<noteq> Inl (MissingColumns us)))"
proof -
  define us where "us = map fst (filter (\<lambda>(column, present). \<not> present)
          (map (\<lambda>(column, dtype). (column, column \<in> set (columns t))) (to_dict required)))"
  have eq: "set us = set (absent_required t required)"
    unfolding us_def unsatisfied_set to_dict_keys absent_required_def by auto
  have v: "validate_columns t required optional =
      (if us \<noteq> [] then Inl (MissingColumns us)
       else drop_unlisted (columns t) (map fst (to_dict required) @ map fst (to_dict optional)) t)"
    by (simp add: validate_columns_def Let_def us_def)
  show ?thesis
  proof (cases "absent_required t required = []")
    case True
    with eq have "us = []" by simp
    with True v show ?thesis by (simp add: drop_unlisted_not_missing)
  next
    case False
    with eq have "us \<noteq> []" by (metis set_empty)
    with False eq v show ?thesis by simp
  qed
qed

theorem validate_columns_missing_witness:
  "absent_required
      \<lparr>columns = [''DATE'', ''CLOSE'', ''EXTRA''],
       rows = [[DateCell 1, NumCell 2, NumCell 3]], dt_index = None\<rparr>
      (ListSpec [''date'', ''open price'', ''close'', ''volume'']) = [''OPEN_PRICE'', ''VOLUME'']
   \<and> (\<exists>us. validate_columns
              \<lparr>columns = [''DATE'', ''CLOSE'', ''EXTRA''],
               rows = [[DateCell 1, NumCell 2, NumCell 3]], dt_index = None\<rparr>
              (ListSpec [''date'', ''open price'', ''close'', ''volume''])
              (ListSpec [''extra'']) = Inl (MissingColumns us)
            \<and> set us = {''OPEN_PRICE'', ''VOLUME''})
   \<and> absent_required
      \<lparr>columns = [''DATE'', ''CLOSE'', ''EXTRA''],
       rows = [[DateCell 1, NumCell 2, NumCell 3]], dt_index = None\<rparr>
      (ListSpec [''date'', ''close'']) = []
   \<and> (\<forall>us. validate_columns
              \<lparr>columns = [''DATE'', ''CLOSE'', ''EXTRA''],
               rows = [[DateCell 1, NumCell 2, NumCell 3]], dt_index = None\<rparr>
              (ListSpec [''date'', ''close'']) NoSpec \<noteq> Inl (MissingColumns us))"
proof -
  let ?t = "\<lparr>columns = [''DATE'', ''CLOSE'', ''EXTRA''],
             rows = [[DateCell 1, NumCell 2, NumCell 3]], dt_index = None\<rparr>"
  have a1: "absent_required ?t (ListSpec [''date'', ''open price'', ''close'', ''volume''])
              = [''OPEN_PRICE'', ''VOLUME'']"
    by (simp add: absent_required_def spec_names_def format_defs)
  have a2: "absent_required ?t (ListSpec [''date'', ''close'']) = []"
    by (simp add: absent_required_def spec_names_def format_defs)
  show ?thesis
    using validate_columns_missing
            [of ?t "ListSpec [''date'', ''open price'', ''close'', ''volume'']" "ListSpec [''extra'']"]
          validate_columns_missing [of ?t "ListSpec [''date'', ''close'']" NoSpec]
    unfolding a1 a2 by simp
qed

subsection \<open>Open and close names, and the defensive check\<close>

lemma column_format_Nil: "column_format x = [] \<longleftrightarrow> x = []"
  by (simp add: column_format_def upper_def replace_space_def)

lemma truthy_name_of: "truthy v \<Longrightarrow> name_of v \<noteq> []"
  by (cases v) (simp_all add: truthy_def name_of_def)

lemma resolve_nonempty:
  "resolve_open_close open_v close_v = Inr (ov, cv, single) \<Longrightarrow> ov \<noteq> [] \<and> cv \<noteq> []"
  by (auto simp: resolve_open_close_def Let_def column_format_Nil truthy_name_of split: if_splits)

lemma reverify_assemble:
  "ov \<noteq> [] \<Longrightarrow> cv \<noteq> [] \<Longrightarrow> reverify ov cv (assemble_required ov cv required)"
  by (simp add: reverify_def assemble_required_def Let_def)

lemma set_datetime_index_errors:
  "set_datetime_index e t = Inl err \<Longrightarrow>
     err = NotOneDimensional \<or> err = NotADatetime \<or> (\<exists>k. err = KeyError k)"
  by (auto simp: set_datetime_index_def drop_column_def split: if_splits option.splits)

text \<open>
  Claim C10. Once the open and close names have been resolved without error, the defensive
  check of line 161 succeeds on the assembled required columns, whatever the caller's required
  list is; so the code from line 116 on never raises the error of line 162.
\<close>

theorem defensive_check_unreachable:
  "(\<forall>ov cv single. resolve_open_close open_v close_v = Inr (ov, cv, single)
        \<longrightarrow> reverify ov cv (assemble_required ov cv required))
   \<and> format_and_validate e s t close_v0 required \<noteq> Inl OpenCloseNotRequired"
proof
  show "\<forall>ov cv single. resolve_open_close open_v close_v = Inr (ov, cv, single)
        \<longrightarrow> reverify ov cv (assemble_required ov cv required)"
    using resolve_nonempty reverify_assemble by blast
next
  show "format_and_validate e s t close_v0 required \<noteq> Inl OpenCloseNotRequired"
  proof (cases "resolve_open_close
                  (default_name ''OPEN'' (map column_format (columns t)) (s_open_value s))
                  (default_name ''CLOSE'' (map column_format (columns t)) close_v0)")
    case (Inl err)
    then have "format_and_validate e s t close_v0 required = Inl err"
      by (simp add: format_and_validate_def Let_def)
    moreover from Inl have "err = OpenCloseUnknown"
      by (auto simp: resolve_open_close_def Let_def split: if_splits)
    ultimately show ?thesis by simp
  next
    case (Inr r)
    obtain ov cv single where r: "r = (ov, cv, single)" by (cases r) auto
    with Inr have ok: "reverify ov cv (assemble_required ov cv required)"
      using resolve_nonempty reverify_assemble by blast
    show ?thesis
    proof
      assume "format_and_validate e s t close_v0 required = Inl OpenCloseNotRequired"
      with Inr r ok show False
        by (auto simp: format_and_validate_def Let_def split: sum.splits
                 dest!: validate_columns_errors set_datetime_index_errors)
    qed
  qed
qed

theorem defensive_check_unreachable_witness:
  "resolve_open_close None (Some ''adj close'') = Inr (''ADJ_CLOSE'', ''ADJ_CLOSE'', True)
   \<and> reverify ''ADJ_CLOSE'' ''ADJ_CLOSE''
        (assemble_required ''ADJ_CLOSE'' ''ADJ_CLOSE'' [''VOLUME''])"
proof -
  have r: "resolve_open_close None (Some ''adj close'') = Inr (''ADJ_CLOSE'', ''ADJ_CLOSE'', True)"
    by (simp add: resolve_open_close_def format_defs)
  show ?thesis
    using r defensive_check_unreachable
            [where open_v = None and close_v = "Some ''adj close''" and required = "[''VOLUME'']"]
    by blast
qed

lemma format_and_validate_names:
  assumes "format_and_validate e s t close_v0 required = Inr ds"
  shows "\<exists>ov cv single.
           resolve_open_close
             (default_name ''OPEN'' (map column_format (columns t)) (s_open_value s))
             (default_name ''CLOSE'' (map column_format (columns t)) close_v0)
             = Inr (ov, cv, single)
           \<and> open_value ds = Some ov \<and> close_value ds = Some cv \<and> single_valued ds = Some single"
  using assms
  by (auto simp: format_and_validate_def Let_def split: sum.splits if_splits)

text \<open>
  Claim C8. When, after the defaults of lines 120 and 121, only a close name is known, the
  resolution formats the close name, makes the open name equal to it and marks the dataset
  single-valued; symmetrically when only an open name is known. A construction that
  completes stores exactly the resolved names and flag in the dataset.
\<close>

theorem single_valued_resolution:
  "(truthy close_v \<and> \<not> truthy open_v \<longrightarrow>
      resolve_open_close open_v close_v
        = Inr (column_format (name_of close_v), column_format (name_of close_v), True))
   \<and> (truthy open_v \<and> \<not> truthy close_v \<longrightarrow>
      resolve_open_close open_v close_v
        = Inr (column_format (name_of open_v), column_format (name_of open_v), True))
   \<and> (\<forall>ds. format_and_validate e s t close_v0 required = Inr ds \<longrightarrow>
        (\<exists>ov cv single.
           resolve_open_close
             (default_name ''OPEN'' (map column_format (columns t)) (s_open_value s))
             (default_name ''CLOSE'' (map column_format (columns t)) close_v0)
             = Inr (ov, cv, single)
           \<and> open_value ds = Some ov \<and> close_value ds = Some cv
           \<and> single_valued ds = Some single))"
  using format_and_validate_names [of e s t close_v0 required]
  by (simp add: resolve_open_close_def Let_def)

theorem single_valued_resolution_witness:
  "truthy (Some ''adj close'') \<and> \<not> truthy None
   \<and> resolve_open_close None (Some ''adj close'') = Inr (''ADJ_CLOSE'', ''ADJ_CLOSE'', True)
   \<and> truthy (Some ''open'') \<and> \<not> truthy (Some [])
   \<and> resolve_open_close (Some ''open'') (Some []) = Inr (''OPEN'', ''OPEN'', True)"
  using single_valued_resolution [where open_v = None and close_v = "Some ''adj close''"]
        single_valued_resolution [where open_v = "Some ''open''" and close_v = "Some []"]
  by (simp add: format_defs)

subsection \<open>Truthiness of a dataset\<close>

lemma self_data_assigned: "data ds = Some t \<Longrightarrow> self_data n ds = Inr t"
  by (cases n) simp_all

lemma AssetData_bool_assigned:
  "data ds = Some t \<Longrightarrow> AssetData_bool limit ds = Inr (\<not> empty_table t)"
  by (simp add: AssetData_bool_def self_data_assigned)

text \<open>
  Claim C7. The claim wants the dataset built from \<^verbatim>\<open>None\<close> to test false. The constructor
  returns before it assigns \<^verbatim>\<open>self.data\<close>, and the truthiness test of that object ends in
  \<^verbatim>\<open>RecursionError\<close> whatever the recursion limit is: it returns neither true nor false.
  (On a dataset whose table was assigned, the test is true exactly when the table is not
  empty: lemma \<open>AssetData_bool_assigned\<close>.)
\<close>

theorem dataset_of_None_recursion:
  "AssetData_init e s NoneData cols
      = Inr \<lparr>data = None, open_value = None, close_value = None, single_valued = None\<rparr>
   \<and> AssetData_bool limit
        \<lparr>data = None, open_value = None, close_value = None, single_valued = None\<rparr>
      = Inl RecursionError"
proof -
  have "self_data n \<lparr>data = None, open_value = None, close_value = None, single_valued = None\<rparr>
          = Inl RecursionError" for n
    by (induction n) simp_all
  then show ?thesis by (simp add: AssetData_init_def AssetData_bool_def)
qed

subsection \<open>Numeric inputs\<close>

lemma format_char_idem:
  "upper_char (if upper_char (if c = CHR '' '' then CHR ''_'' else c) = CHR '' '' then CHR ''_''
               else upper_char (if c = CHR '' '' then CHR ''_'' else c))
     = upper_char (if c = CHR '' '' then CHR ''_'' else c)"
  by (cases c) (auto simp: upper_char_def)

lemma column_format_idem: "column_format (column_format x) = column_format x"
  by (induction x) (simp_all add: column_format_def upper_def replace_space_def format_char_idem)

lemma column_format_DATE: "column_format ''DATE'' = ''DATE''"
  by (simp add: format_defs)

lemma column_format_OPEN: "column_format ''OPEN'' = ''OPEN''"
  by (simp add: format_defs)

lemma drop_unlisted_all_kept: "set cs \<subseteq> set keep \<Longrightarrow> drop_unlisted cs keep t = Inr t"
  by (induction cs) simp_all

lemma validate_columns_all_present:
  assumes "fst ` set (to_dict required) \<subseteq> set (columns t)"
  shows "validate_columns t required optional
           = drop_unlisted (columns t) (map fst (to_dict required) @ map fst (to_dict optional)) t"
proof -
  define us where "us = map fst (filter (\<lambda>(column, present). \<not> present)
          (map (\<lambda>(column, dtype). (column, column \<in> set (columns t))) (to_dict required)))"
  have "set us = {}" unfolding us_def unsatisfied_set using assms by auto
  then have "us = []" by simp
  then show ?thesis by (simp add: validate_columns_def Let_def us_def)
qed

lemma remove_label_absent:
  "column \<notin> set labels \<Longrightarrow> length xs = length labels \<Longrightarrow> remove_label column labels xs = xs"
proof -
  assume a: "column \<notin> set labels" and l: "length xs = length labels"
  have "filter (\<lambda>(l, x). l \<noteq> column) (zip labels xs) = zip labels xs"
    using a by (auto simp: filter_id_conv dest: set_zip_leftD)
  then show ?thesis using l by (simp add: remove_label_def)
qed


lemma select_absent:
  "label \<notin> set ls \<Longrightarrow> filter (\<lambda>(l, x). l = label) (zip ls xs) = []"
  by (auto simp: filter_empty_conv dest: set_zip_leftD)

lemma remove_label_Cons_same:
  "remove_label column (column # ls) (x # xs) = remove_label column ls xs"
  by (simp add: remove_label_def)

text \<open>
  Without a configured open name, and with \<^verbatim>\<open>DATE\<close> neither the close name nor a required
  name, the construction from a number completes: the dataset has one row, indexed by the
  construction time, and the close column and every required column hold the number.
\<close>

lemma numeric_dataset:
  fixes s :: settings and e :: env and v :: real
  defines "c \<equiv> column_format (name_of (if truthy (s_close_value s) then s_close_value s
                                            else Some ''CLOSE''))"
      and "req \<equiv> map column_format (case s_required s of None \<Rightarrow> [] | Some r \<Rightarrow> r)"
  assumes noopen: "\<not> truthy (s_open_value s)"
      and cd: "c \<noteq> ''DATE''" and rd: "''DATE'' \<notin> set req"
  shows "\<exists>ds. AssetData_init e s (Numeric v) cols = Inr ds
            \<and> data ds = Some \<lparr>columns = c # req,
                               rows = [replicate (Suc (length req)) (NumCell v)],
                               dt_index = Some [today e]\<rparr>
            \<and> close_value ds = Some c"
proof -
  define close' where
    "close' = (if truthy (s_close_value s) then s_close_value s else Some ''CLOSE'')"
  define t0 where
    "t0 = \<lparr>columns = ''DATE'' # name_of close' # req,
           rows = [DateCell (today e) # replicate (length req + 1) (NumCell v)],
           dt_index = None\<rparr>"
  define t where "t = t0\<lparr>columns := map column_format (columns t0)\<rparr>"
  have tc: "truthy close'" by (auto simp: close'_def truthy_def)
  have c: "c = column_format (name_of close')" by (simp add: c_def close'_def)
  have reqidem: "map column_format req = req"
    by (simp add: req_def column_format_idem)
  have cols_t: "columns t = ''DATE'' # c # req"
    by (simp add: t_def t0_def column_format_DATE c reqidem)
  have rows_t: "rows t = [DateCell (today e) # replicate (length req + 1) (NumCell v)]"
    by (simp add: t_def t0_def)
  have idx_t: "dt_index t = None" by (simp add: t_def t0_def)
  have load: "load_table e (Numeric v) cols (s_close_value s) req
                = Inr (t0, close', ''DATE'' # name_of close' # req)"
    by (simp add: load_table_def numeric_frame_def set_date_column_def Let_def t0_def close'_def)
  have dclose: "default_name ''CLOSE'' (columns t) close' = close'"
    using tc by (simp add: default_name_def)
  obtain ov single where
    res: "resolve_open_close (default_name ''OPEN'' (columns t) (s_open_value s)) close'
            = Inr (ov, c, single)"
    and ovf: "column_format ov \<in> set (columns t)"
  proof (cases "''OPEN'' \<in> set (columns t)")
    case True
    then have "resolve_open_close (default_name ''OPEN'' (columns t) (s_open_value s)) close'
                 = Inr (''OPEN'', c, False)"
      using tc noopen
      by (simp add: default_name_def resolve_open_close_def truthy_def name_of_def
                    column_format_OPEN c)
    moreover from True have "column_format ''OPEN'' \<in> set (columns t)"
      by (simp add: column_format_OPEN)
    ultimately show ?thesis using that by blast
  next
    case False
    then have "resolve_open_close (default_name ''OPEN'' (columns t) (s_open_value s)) close'
                 = Inr (c, c, True)"
      using tc noopen by (simp add: default_name_def resolve_open_close_def Let_def c)
    moreover have "column_format c \<in> set (columns t)"
      by (simp add: cols_t c column_format_idem)
    ultimately show ?thesis using that by blast
  qed
  have ne: "ov \<noteq> []" "c \<noteq> []" using resolve_nonempty [OF res] by simp_all
  define required where
    "required = assemble_required ov c (''DATE'' # name_of close' # req)"
  have setreq: "set required = {''DATE'', ov, c, name_of close'} \<union> set req"
    using ne by (auto simp: required_def assemble_required_def Let_def)
  have keys: "fst ` set (to_dict (ListSpec required)) \<subseteq> set (columns t)"
  proof -
    have "column_format ` set req \<subseteq> set req"
      using reqidem by (metis image_set subset_refl)
    then show ?thesis
      unfolding to_dict_keys spec_names_def
      using ovf
      by (auto simp: setreq cols_t column_format_DATE c column_format_idem)
  qed
  have keep: "set (columns t) \<subseteq> set (map fst (to_dict (ListSpec required))
                                        @ map fst (to_dict (s_optional s)))"
  proof -
    have "set (columns t) \<subseteq> column_format ` set required"
    proof
      fix x assume "x \<in> set (columns t)"
      then consider "x = ''DATE''" | "x = c" | "x \<in> set req" by (auto simp: cols_t)
      then show "x \<in> column_format ` set required"
      proof cases
        case 1
        have "column_format ''DATE'' \<in> column_format ` set required"
          by (rule imageI) (simp add: setreq)
        with 1 show ?thesis by (simp add: column_format_DATE)
      next
        case 2
        have "column_format c \<in> column_format ` set required"
          by (rule imageI) (simp add: setreq)
        with 2 show ?thesis by (simp add: c column_format_idem)
      next
        case 3
        then have "column_format x \<in> column_format ` set required"
          by (intro imageI) (simp add: setreq)
        moreover from 3 have "column_format x = x"
          by (auto simp: req_def column_format_idem)
        ultimately show ?thesis by simp
      qed
    qed
    also have "\<dots> = fst ` set (to_dict (ListSpec required))"
      by (simp add: to_dict_keys spec_names_def)
    finally show ?thesis by auto
  qed
  have val: "validate_columns t (ListSpec required) (s_optional s) = Inr t"
    by (simp only: validate_columns_all_present [OF keys] drop_unlisted_all_kept [OF keep])
  have nd: "''DATE'' \<notin> set (c # req)" using cd rd by auto
  have t_eq: "t = \<lparr>columns = ''DATE'' # c # req,
                    rows = [DateCell (today e) # replicate (Suc (length req)) (NumCell v)],
                    dt_index = None\<rparr>"
    using cols_t rows_t idx_t by (cases t) simp
  have f1: "filter (\<lambda>l. l = ''DATE'') (c # req) = []"
    using nd by (auto simp: filter_empty_conv)
  have f2: "filter (\<lambda>l. l \<noteq> ''DATE'') (c # req) = c # req"
    using nd by (auto simp: filter_id_conv)
  have f3: "filter (\<lambda>(l, x). l = ''DATE'') (zip (c # req) (replicate (Suc (length req)) (NumCell v)))
              = []"
    using nd by (rule select_absent)
  have f4: "remove_label ''DATE'' (c # req) (replicate (Suc (length req)) (NumCell v))
              = replicate (Suc (length req)) (NumCell v)"
    using nd by (simp add: remove_label_absent)
  have cells: "concat (column_cells t ''DATE'') = [DateCell (today e)]"
    using f3 by (simp add: column_cells_def t_eq)
  have one: "length (filter (\<lambda>l. l = ''DATE'') (columns t)) = 1"
    using f1 by (simp add: t_eq)
  have dc: "drop_column (t\<lparr>dt_index := Some [today e]\<rparr>) ''DATE''
              = Inr \<lparr>columns = c # req, rows = [replicate (Suc (length req)) (NumCell v)],
                     dt_index = Some [today e]\<rparr>"
    unfolding drop_column_def t_eq using f2 f4
    by (simp add: remove_label_Cons_same del: replicate.simps)
  have sdi: "set_datetime_index e t
               = Inr \<lparr>columns = c # req, rows = [replicate (Suc (length req)) (NumCell v)],
                      dt_index = Some [today e]\<rparr>"
    unfolding set_datetime_index_def cells using one dc
    by (simp add: cell_datetime_def cols_t)
  have rv: "reverify ov c required"
    unfolding required_def by (rule reverify_assemble [OF ne])
  have "format_and_validate e s t0 close' (''DATE'' # name_of close' # req)
          = Inr \<lparr>data = Some \<lparr>columns = c # req,
                               rows = [replicate (Suc (length req)) (NumCell v)],
                               dt_index = Some [today e]\<rparr>,
                 open_value = Some ov, close_value = Some c, single_valued = Some single\<rparr>"
    using res rv val sdi dclose
    by (simp add: format_and_validate_def Let_def t_def [symmetric] required_def [symmetric])
  with load show ?thesis
    by (simp add: AssetData_init_def Let_def req_def [symmetric])
qed

text \<open>
  Claim C2. The claim wants every numeric input to yield the one-row dataset. With a type
  whose settings name an open column that is neither the close column nor a required column
  (here \<^verbatim>\<open>OPEN\<close> beside \<^verbatim>\<open>CLOSE\<close>), the static frame of lines 90 to 94 has no such column,
  and the construction from the number 5 fails in \<^verbatim>\<open>validate_columns\<close>.
\<close>

theorem numeric_with_open_name_fails:
  "AssetData_init env0
      \<lparr>s_required = None, s_optional = NoSpec, s_close_value = Some ''CLOSE'',
       s_open_value = Some ''OPEN''\<rparr> (Numeric 5) None
    = Inl (MissingColumns [''OPEN''])"
  by (simp add: env0_def AssetData_init_def load_table_def numeric_frame_def set_date_column_def
        format_and_validate_def default_name_def resolve_open_close_def assemble_required_def
        reverify_def validate_columns_def to_dict_def dict_of_def format_defs)

lemma numeric_without_open_name:
  "AssetData_init env0
      \<lparr>s_required = Some [''volume''], s_optional = NoSpec, s_close_value = None,
       s_open_value = None\<rparr> (Numeric 5) None
    = Inr \<lparr>data = Some \<lparr>columns = [''CLOSE'', ''VOLUME''], rows = [[NumCell 5, NumCell 5]],
                         dt_index = Some [100]\<rparr>,
          open_value = Some ''CLOSE'', close_value = Some ''CLOSE'', single_valued = Some True\<rparr>"
  by (simp add: env0_def AssetData_init_def load_table_def numeric_frame_def set_date_column_def
        format_and_validate_def default_name_def resolve_open_close_def assemble_required_def
        reverify_def validate_columns_def to_dict_def dict_of_def format_defs
        set_datetime_index_def column_cells_def cell_datetime_def drop_column_def remove_label_def)

subsection \<open>The type registry\<close>

text \<open>
  Claim C5. Let the members of the registry have distinct names. A type whose immediate bases
  include \<^verbatim>\<open>ABC\<close> or \<^verbatim>\<open>Hidden\<close> leaves the registry as it is and gets the tag it inherits,
  or \<^verbatim>\<open>UNDEFINED\<close> when it inherits none. Any other type gets the tag named by the upper-case
  form of its name; that tag is a member of the registry afterwards, the names stay distinct,
  a tag that existed already is reused, and a second type with the same upper-case name gets
  the same tag and adds no member.
\<close>

theorem init_subclass_tag:
  assumes "distinct (map fst TYPES)"
  shows "(ABC \<in> set (cls_bases cls) \<or> Hidden \<in> set (cls_bases cls) \<longrightarrow>
            init_subclass TYPES cls
              = (TYPES, case inherited_type cls of None \<Rightarrow> ''UNDEFINED'' | Some tag \<Rightarrow> tag))
       \<and> (ABC \<notin> set (cls_bases cls) \<and> Hidden \<notin> set (cls_bases cls) \<longrightarrow>
            snd (init_subclass TYPES cls) = upper (cls_name cls)
            \<and> upper (cls_name cls) \<in> set (map fst (fst (init_subclass TYPES cls)))
            \<and> distinct (map fst (fst (init_subclass TYPES cls)))
            \<and> (upper (cls_name cls) \<in> set (map fst TYPES)
                 \<longrightarrow> fst (init_subclass TYPES cls) = TYPES)
            \<and> (\<forall>cls'. ABC \<notin> set (cls_bases cls') \<and> Hidden \<notin> set (cls_bases cls')
                    \<and> upper (cls_name cls') = upper (cls_name cls)
                 \<longrightarrow> init_subclass (fst (init_subclass TYPES cls)) cls'
                       = init_subclass TYPES cls))"
  using assms by (auto simp: init_subclass_def extend_enum_def Let_def)

theorem init_subclass_tag_witness:
  "distinct (map fst TYPES_initial)
   \<and> init_subclass TYPES_initial
        \<lparr>cls_name = ''Stock'', cls_bases = [OtherClass ''Asset''], inherited_type = None\<rparr>
      = ([(''UNDEFINED'', Map.empty), (''STOCK'', Map.empty)], ''STOCK'')
   \<and> init_subclass [(''UNDEFINED'', Map.empty), (''STOCK'', Map.empty)]
        \<lparr>cls_name = ''stock'', cls_bases = [OtherClass ''Asset''], inherited_type = None\<rparr>
      = ([(''UNDEFINED'', Map.empty), (''STOCK'', Map.empty)], ''STOCK'')
   \<and> init_subclass TYPES_initial
        \<lparr>cls_name = ''Secret'', cls_bases = [OtherClass ''Asset'', Hidden], inherited_type = None\<rparr>
      = (TYPES_initial, ''UNDEFINED'')"
proof -
  have d: "distinct (map fst TYPES_initial)" by (simp add: TYPES_initial_def)
  show ?thesis
    using d
      init_subclass_tag [OF d, of "\<lparr>cls_name = ''Stock'', cls_bases = [OtherClass ''Asset''], inherited_type = None\<rparr>"]
    by (simp add: init_subclass_def extend_enum_def TYPES_initial_def format_defs)
qed

subsection \<open>The beginning of \<^verbatim>\<open>Asset.__init__\<close>\<close>

text \<open>
  Claim C1. For a name that the instance map of the type already holds, the uniqueness check
  raises \<^verbatim>\<open>AssetDuplicationError\<close> when duplicates are not allowed, as the claim says. When
  duplicates are allowed the claim wants the new instance appended; line 88 instead raises
  \<^verbatim>\<open>TypeError\<close>, and the map is left as it was.
\<close>

theorem duplicate_name_check:
  "m nm \<noteq> None \<Longrightarrow>
     check_instance m self nm tag False = Inl (AssetDuplicationError nm tag)
     \<and> check_instance m self nm tag True = Inl TypeError"
  by (auto simp: check_instance_def iadd_def split: option.splits entry.splits)

theorem duplicate_name_check_witness:
  "[''X'' \<mapsto> Single 0] ''X'' \<noteq> None
   \<and> check_instance [''X'' \<mapsto> Single 0] 1 ''X'' ''STOCK'' False
       = Inl (AssetDuplicationError ''X'' ''STOCK'')
   \<and> check_instance [''X'' \<mapsto> Single 0] 1 ''X'' ''STOCK'' True = Inl TypeError"
  using duplicate_name_check [of "[''X'' \<mapsto> Single 0]" "''X''" 1 "''STOCK''"] by simp

text \<open>
  Were the marker defined, lines 77 to 90 would do what claim C6 describes: assign the name,
  the provisional price and the marker, and only then run the uniqueness check.
\<close>

lemma attributes_before_check:
  "Asset_init_begin_with (Inr marker) m self tag nm d allow_duplicates
     = (case check_instance m self nm tag allow_duplicates of
          Inl err \<Rightarrow> Inl err
        | Inr m' \<Rightarrow>
            Inr (\<lparr>name = nm, price = Scalar (NumCell (if is_numeric d then number d else 0)),
                  valuate_on = marker\<rparr>, m'))"
  by (simp add: Asset_init_begin_with_def init_attributes_with_def)

text \<open>
  Claim C6. The claim wants the name, the provisional price and the valuation column set
  before the uniqueness check runs. Line 79 reads \<^verbatim>\<open>AssetData.COLUMNS.CLOSE\<close>, which the
  shipped class does not define: every construction ends there in \<^verbatim>\<open>AttributeError\<close>, the
  valuation column is never set and the uniqueness check is never reached.
\<close>

theorem valuation_marker_missing:
  "init_attributes nm d = Inl AttributeError
   \<and> Asset_init_begin m self tag nm d allow_duplicates = Inl AttributeError"
  by (simp add: Asset_init_begin_def Asset_init_begin_with_def init_attributes_def
        init_attributes_with_def AssetData_COLUMNS_CLOSE_def AssetData_class_attributes_def)

subsection \<open>Valuation\<close>

text \<open>
  Claim C9. \<^verbatim>\<open>valuate\<close> without a date returns the same result, and the same asset state, as
  \<^verbatim>\<open>valuate\<close> with the asset's own stored date.
\<close>

theorem valuate_default_date:
  "valuate e limit formula self NoDate = valuate e limit formula self (DateTime (date self))"
  by (simp add: valuate_def normalize_date_input_def)

lemma last_filter_keep:
  "xs \<noteq> [] \<Longrightarrow> P (last xs) \<Longrightarrow> filter P xs \<noteq> [] \<and> last (filter P xs) = last xs"
  by (induction xs rule: rev_induct) simp_all

lemma labelled_replicate:
  "map snd (filter (\<lambda>(l, x). l = c) (zip cs (replicate (length cs) v)))
     = replicate (length (filter (\<lambda>l. l = c) cs)) v"
  by (induction cs) simp_all

lemma row_item_NaN:
  "length (filter (\<lambda>l. l = c) cs) = 1 \<Longrightarrow>
     row_item (zip cs (replicate (length cs) NaN)) c = Inr (Scalar NaN)"
  by (simp add: row_item_def labelled_replicate)

lemma asof_before:
  assumes "dt_index t = Some ds" "sorted ds" "ds \<noteq> []" "\<forall>dt\<in>set ds. d < dt"
  shows "asof t d = Inr (zip (columns t) (replicate (length (columns t)) NaN))"
proof -
  have "filter (\<lambda>(dt, r). dt \<le> d \<and> NaN \<notin> set r) (zip ds (rows t)) = []"
    using assms(4) by (auto simp: filter_empty_conv dest!: set_zip_leftD)
  with assms show ?thesis by (simp add: asof_def)
qed

lemma asof_after:
  assumes "dt_index t = Some ds" "sorted ds" "ds \<noteq> []" "length ds = length (rows t)"
      and "last ds \<le> d" "NaN \<notin> set (last (rows t))"
  shows "asof t d = Inr (zip (columns t) (last (rows t)))"
proof -
  let ?P = "\<lambda>(dt, r). dt \<le> d \<and> NaN \<notin> set r"
  have ne: "rows t \<noteq> []" using assms(3,4) by auto
  then have z: "zip ds (rows t) \<noteq> []" using assms(3) by (cases ds; cases "rows t") auto
  have l: "last (zip ds (rows t)) = (last ds, last (rows t))"
    using assms(3,4) ne by (simp add: last_zip)
  have "?P (last (zip ds (rows t)))" using l assms(5,6) by simp
  from last_filter_keep [OF z, of ?P, OF this] l
  have "filter ?P (zip ds (rows t)) \<noteq> [] \<and> snd (last (filter ?P (zip ds (rows t)))) = last (rows t)"
    by simp
  with assms(1,2,3) show ?thesis by (simp add: asof_def)
qed

text \<open>
  Claim C4, as the claim states it, fails: valuating the example asset, whose first row is
  dated 10, at the date 5 raises nothing; the as-of lookup returns a row of \<^verbatim>\<open>NaN\<close>, and
  \<^verbatim>\<open>NaN\<close> is returned and stored as the price.
\<close>

theorem valuate_before_first_row_counterexample:
  "data_valuate env0 1000 asset0 (DateTime 5)
      = Inr (Scalar NaN, asset0\<lparr>price := Scalar NaN\<rparr>)
   \<and> valuate env0 1000 formula0 asset0 (DateTime 5)
      = Inr (Scalar NaN, asset0\<lparr>price := Scalar NaN\<rparr>)"
  by (simp add: valuate_def data_valuate_def normalize_date_input_def AssetData_bool_assigned
        self_data_assigned asset0_def table0_def empty_table_def asof_def row_item_def)

text \<open>
  Claim C4, amended. For an asset whose dataset is not empty and is indexed by ascending
  dates, one per row: valuating at a date earlier than every row does not fail; when the
  valuation column labels exactly one column it returns \<^verbatim>\<open>NaN\<close> and stores it as the price.
  Valuating at a date at or after the last row, when the last row has no missing value and
  holds the value \<open>p\<close> in the valuation column, returns \<open>p\<close> and stores it as the price.
\<close>

theorem valuate_asof:
  assumes "data (asset_data self) = Some t"
      and "\<not> empty_table t"
      and "dt_index t = Some ds"
      and "length ds = length (rows t)"
      and "sorted ds"
  shows "((\<forall>dt\<in>set ds. d < dt) \<and> length (filter (\<lambda>l. l = valuate_on self) (columns t)) = 1
            \<longrightarrow> valuate e limit formula self (DateTime d)
                  = Inr (Scalar NaN, self\<lparr>price := Scalar NaN\<rparr>))
       \<and> (last ds \<le> d \<and> NaN \<notin> set (last (rows t))
            \<and> row_item (zip (columns t) (last (rows t))) (valuate_on self) = Inr p
            \<longrightarrow> valuate e limit formula self (DateTime d) = Inr (p, self\<lparr>price := p\<rparr>))"
proof -
  have ne: "ds \<noteq> []" using assms(2,4) by (auto simp: empty_table_def)
  have v: "valuate e limit formula self (DateTime d) = data_valuate e limit self (DateTime d)"
    using assms(1,2) by (simp add: valuate_def normalize_date_input_def AssetData_bool_assigned)
  have dv: "data_valuate e limit self (DateTime d) =
      (case asof t d of Inl err \<Rightarrow> Inl err
       | Inr r \<Rightarrow> (case row_item r (valuate_on self) of
                    Inl err \<Rightarrow> Inl err | Inr p \<Rightarrow> Inr (p, self\<lparr>price := p\<rparr>)))"
    using assms(1) by (simp add: data_valuate_def normalize_date_input_def self_data_assigned)
  show ?thesis
  proof (intro conjI impI)
    assume a: "(\<forall>dt\<in>set ds. d < dt) \<and> length (filter (\<lambda>l. l = valuate_on self) (columns t)) = 1"
    then have "asof t d = Inr (zip (columns t) (replicate (length (columns t)) NaN))"
      using asof_before [OF assms(3) assms(5) ne] by blast
    with a show "valuate e limit formula self (DateTime d)
                  = Inr (Scalar NaN, self\<lparr>price := Scalar NaN\<rparr>)"
      by (simp add: v dv row_item_NaN)
  next
    assume a: "last ds \<le> d \<and> NaN \<notin> set (last (rows t))
            \<and> row_item (zip (columns t) (last (rows t))) (valuate_on self) = Inr p"
    then have "asof t d = Inr (zip (columns t) (last (rows t)))"
      using asof_after [OF assms(3) assms(5) ne assms(4)] by blast
    with a show "valuate e limit formula self (DateTime d) = Inr (p, self\<lparr>price := p\<rparr>)"
      by (simp add: v dv)
  qed
qed

theorem valuate_asof_witness:
  "data (asset_data asset0) = Some table0 \<and> \<not> empty_table table0
   \<and> dt_index table0 = Some [10, 20] \<and> length [10, 20 :: int] = length (rows table0)
   \<and> sorted [10, 20 :: int]
   \<and> (5 :: int) < 10 \<and> (5 :: int) < 20
   \<and> length (filter (\<lambda>l. l = valuate_on asset0) (columns table0)) = 1
   \<and> valuate env0 1000 formula0 asset0 (DateTime 5)
        = Inr (Scalar NaN, asset0\<lparr>price := Scalar NaN\<rparr>)
   \<and> last [10, 20 :: int] \<le> 25 \<and> NaN \<notin> set (last (rows table0))
   \<and> row_item (zip (columns table0) (last (rows table0))) (valuate_on asset0)
        = Inr (Scalar (NumCell 8))
   \<and> valuate env0 1000 formula0 asset0 (DateTime 25)
        = Inr (Scalar (NumCell 8), asset0\<lparr>price := Scalar (NumCell 8)\<rparr>)"
proof -
  have h: "data (asset_data asset0) = Some table0" "\<not> empty_table table0"
    "dt_index table0 = Some [10, 20]" "length [10, 20 :: int] = length (rows table0)"
    "sorted [10, 20 :: int]"
    by (simp_all add: asset0_def table0_def empty_table_def)
  have a: "(\<forall>dt\<in>set [10, 20 :: int]. 5 < dt)"
    "length (filter (\<lambda>l. l = valuate_on asset0) (columns table0)) = 1"
    by (simp_all add: asset0_def table0_def)
  have b: "last [10, 20 :: int] \<le> 25" "NaN \<notin> set (last (rows table0))"
    "row_item (zip (columns table0) (last (rows table0))) (valuate_on asset0)
        = Inr (Scalar (NumCell 8))"
    by (simp_all add: asset0_def table0_def row_item_def)
  show ?thesis
    using h a b
      valuate_asof [OF h, of 5 env0 1000 formula0 "Scalar (NumCell 8)"]
      valuate_asof [OF h, of 25 env0 1000 formula0 "Scalar (NumCell 8)"]
    by simp
qed

end
